theory Spec2Isabelle
  imports Complex_Main "HOL-Library.Finite_Map" "HOL-Library.Multiset" "HOL-Library.Word"
begin

section \<open>Data model\<close>

text \<open>
  Go strings are byte strings (\<^typ>\<open>string\<close>), Go maps are finite maps
  (\<^typ>\<open>('k, 'v) fmap\<close>: \<open>len\<close> is the size of the domain, a lookup with the
  comma-ok form is \<^const>\<open>fmlookup\<close>), slices are lists, and a pointer that may be
  \<open>nil\<close> is an \<open>option\<close>. The type \<open>float64\<close> is the type variable \<open>'f\<close> and a
  compiled \<open>*template.Template\<close> is the type variable \<open>'t\<close>: neither is inspected by
  the code of this repository, both are only handed to library functions.
\<close>

text \<open>\<open>interface{}\<close> values as the YAML decoder stores them in an inline overflow map.\<close>

datatype any =
    AnyNull
  | AnyBool bool
  | AnyInt int
  | AnyString string
  | AnySeq "any list"
  | AnyMap "(any \<times> any) list"

text \<open>The values a template's input map holds: \<open>values\<close> is a string slice, every other
  field a string.\<close>

datatype tvalue = TString string | TStrings "string list"

text \<open>\<open>prometheus.Desc\<close> as \<open>prometheus.NewDesc(fqName, help, variableLabels, constLabels)\<close>
  records it.\<close>

record desc =
  fqName :: string
  helpText :: string
  variableLabels :: "string list"
  constLabels :: "(string, string) fmap"

definition NewDesc :: "string \<Rightarrow> string \<Rightarrow> string list \<Rightarrow> (string, string) fmap \<Rightarrow> desc" where
  "NewDesc metric_name hlp lbls constant_labels =
     \<lparr>fqName = metric_name, helpText = hlp, variableLabels = lbls, constLabels = constant_labels\<rparr>"

datatype ValueType = CounterValue | GaugeValue | UntypedValue

text \<open>A sample as \<open>prometheus.NewConstMetric\<close> builds it.\<close>

record 'f constMetric =
  metricDesc :: desc
  valType :: ValueType
  val :: 'f
  labelValues :: "string list"

text \<open>\<open>strconv.NumError\<close>: the two ways \<open>strconv.ParseUint\<close> fails.\<close>

datatype num_error = ErrSyntax | ErrRange

text \<open>Run-time panics of the Go runtime the code can raise.\<close>

datatype runtime_panic = IndexOutOfRange | NilDereference

text \<open>One constructor for every place where the source builds or passes on an error.\<close>

datatype error =
    TemplateExecuteFailed "string list" string
  | YamlUnmarshalFailed "string list" string string
  | UnknownFields string "string fset"
  | TranslationUnknownField "string list" nat error
  | LabelNotFound string "(string, string) fmap list"
  | NoTranslatorValueCount string nat
  | ParseUintFailed string num_error
  | ParseFloatFailed string
  | NewConstMetricFailed string
  | FailedCreatingMetric desc string
  | LabelNotSingleValued string "string list"
  | RequiredLabelsMissing "(string, string) fmap" "(string, string) fmap"
  | UnrecognizedAttribute string
  | WhileScraping string string error
  | SearchMalformed string
  | FilterMalformed string
  | TemplateParseFailure string string
  | TypeUndefined
  | LabelWhitespace nat string
  | ScopeUnknown string
  | DerefUnknown string
  | SearchUndefined
  | ConstantLabelWhitespace string string
  | DuplicateLabel string string
  | NamingError string string
  | InvalidType string string

text \<open>What a call does: it panics, returns a non-nil error, or returns its value.\<close>

datatype 'a result = Panic runtime_panic | Error error | Return 'a

text \<open>\<open>translationResult\<close>; \<open>X\<close> is the inline map that receives every other key.\<close>

record 'f translationResult =
  Value :: 'f
  Labels :: "(string, string) fmap"
  X :: "(string, any) fmap"

text \<open>\<open>ldap.EntryAttribute\<close>, \<open>ldap.Entry\<close>, \<open>ldap.SearchResult\<close> and
  \<open>ldap.SearchRequest\<close>, with the fields the code reads or sets.\<close>

record EntryAttribute =
  Name :: string
  Values :: "string list"

record Entry =
  DN :: string
  Attributes :: "EntryAttribute list"

record SearchResult =
  Entries :: "Entry list"

record SearchRequest =
  BaseDN :: string
  Scope :: int
  DerefAliases :: int
  SizeLimit :: int
  TimeLimit :: int
  TypesOnly :: bool
  Filter :: string
  ReqAttributes :: "string list"

text \<open>
  The library functions the code calls, as parameters of the embedding:
  \<^item> \<open>template_parse s\<close> is \<open>template.New(...).Funcs(sprig.FuncMap()).Parse(s)\<close>;
  \<^item> \<open>template_execute t opt data\<close> is \<open>t.Option(opt).Execute(&buffer, data)\<close>: the error,
    or the text written to the buffer;
  \<^item> \<open>yaml_unmarshal text\<close> is \<open>yaml.Unmarshal\<close> into a \<open>[](*translationResult)\<close>: an
    element may be a nil pointer;
  \<^item> \<open>parse_float s\<close> is \<open>strconv.ParseFloat(s, 64)\<close>, \<open>float64_of_uint64\<close> the conversion
    \<open>float64(x)\<close>;
  \<^item> \<open>const_metric_error\<close> is the error \<open>prometheus.NewConstMetric\<close> returns, if any;
  \<^item> \<open>float_zero\<close>, \<open>float_one\<close> and \<open>float_add\<close> are \<open>float64(0)\<close>, \<open>1\<close> and \<open>+\<close> on
    \<open>float64\<close>;
  \<^item> \<open>parse_dn_error\<close> and \<open>compile_filter_error\<close> are the errors of \<open>ldap.ParseDN\<close> and
    \<open>ldap.CompileFilter\<close>, if any;
  \<^item> the two default name templates are the package variables that \<open>init\<close> sets.
\<close>

record ('t, 'f) lib =
  template_parse :: "string \<Rightarrow> string + 't"
  template_execute :: "'t \<Rightarrow> string \<Rightarrow> (string \<times> tvalue) list \<Rightarrow> string + string"
  yaml_unmarshal :: "string \<Rightarrow> string + 'f translationResult option list"
  parse_float :: "string \<Rightarrow> string + 'f"
  float64_of_uint64 :: "64 word \<Rightarrow> 'f"
  const_metric_error :: "desc \<Rightarrow> ValueType \<Rightarrow> 'f \<Rightarrow> string list \<Rightarrow> string option"
  float_zero :: 'f
  float_one :: 'f
  float_add :: "'f \<Rightarrow> 'f \<Rightarrow> 'f"
  parse_dn_error :: "string \<Rightarrow> string option"
  compile_filter_error :: "string \<Rightarrow> string option"
  defaultCounterNameTemplate :: 't
  defaultmetricNameTemplate :: 't

text \<open>The interface \<open>MetricAttribute\<close> with its two implementations.\<close>

datatype 't MetricAttribute =
    CounterMetricAttribute (Desc: desc) (labels: "string list") (translator: "'t option")
  | GaugeMetricAttribute (Desc: desc) (labels: "string list") (translator: "'t option")

record 't MetricsSource =
  SearchRequest :: SearchRequest
  MetricAttributes :: "(string, 't MetricAttribute) fmap"
  LabelAttributes :: "(string, string) fmap"

section \<open>Library functions with a fixed meaning\<close>

text \<open>
  \<open>strconv.ParseUint(s, 10, 64)\<close>: the empty string and any byte that is not a decimal
  digit are syntax errors; a value that does not fit 64 bits is a range error, found at
  the digit where it overflows. The running value is kept as a natural number, so the
  source's test \<open>n1 < n\<close> for wrap-around is the test \<open>n1 > maxVal\<close>.
\<close>

definition is_digit :: "char \<Rightarrow> bool" where
  "is_digit c = (48 \<le> (of_char c :: nat) \<and> (of_char c :: nat) \<le> 57)"

definition digit_val :: "char \<Rightarrow> nat" where
  "digit_val c = (of_char c :: nat) - 48"

definition maxUint64 :: nat where
  "maxUint64 = 18446744073709551615"

fun parse_uint_loop :: "nat \<Rightarrow> string \<Rightarrow> num_error + nat" where
  "parse_uint_loop n [] = Inr n"
| "parse_uint_loop n (c # cs) =
     (if \<not> is_digit c then Inl ErrSyntax
      else if n \<ge> maxUint64 div 10 + 1 then Inl ErrRange
      else if n * 10 + digit_val c > maxUint64 then Inl ErrRange
      else parse_uint_loop (n * 10 + digit_val c) cs)"

definition ParseUint :: "string \<Rightarrow> num_error + 64 word" where
  "ParseUint s =
     (if s = [] then Inl ErrSyntax
      else case parse_uint_loop 0 s of
             Inl e \<Rightarrow> Inl e
           | Inr n \<Rightarrow> Inr (of_nat n))"

text \<open>\<open>prometheus.NewConstMetric(desc, valueType, value, labelValues...)\<close>.\<close>

definition NewConstMetric ::
  "('t, 'f) lib \<Rightarrow> desc \<Rightarrow> ValueType \<Rightarrow> 'f \<Rightarrow> string list \<Rightarrow> string + 'f constMetric" where
  "NewConstMetric L d vt v lvs =
     (case const_metric_error L d vt v lvs of
        Some err \<Rightarrow> Inl err
      | None \<Rightarrow> Inr \<lparr>metricDesc = d, valType = vt, val = v, labelValues = lvs\<rparr>)"

section \<open>The translation and the two metric attributes\<close>

text \<open>\<open>checkOverflow(m, ctx)\<close>: the error names the keys of \<open>m\<close>.\<close>

definition checkOverflow :: "(string, any) fmap \<Rightarrow> string \<Rightarrow> error option" where
  "checkOverflow m ctx =
     (if fcard (fmdom m) > 0 then Some (UnknownFields ctx (fmdom m)) else None)"

text \<open>The loop of \<open>do_the_translation_thing\<close> over the parsed results, from position
  \<open>idx\<close>: reading \<open>result.X\<close> through a nil pointer panics.\<close>

fun check_results ::
  "string list \<Rightarrow> nat \<Rightarrow> 'f translationResult option list \<Rightarrow> unit result" where
  "check_results values idx [] = Return ()"
| "check_results values idx (None # rest) = Panic NilDereference"
| "check_results values idx (Some r # rest) =
     (case checkOverflow (X r) ''interpretting ldap->yaml translation'' of
        Some err \<Rightarrow> Error (TranslationUnknownField values idx err)
      | None \<Rightarrow> check_results values (Suc idx) rest)"

definition do_the_translation_thing ::
  "('t, 'f) lib \<Rightarrow> 't \<Rightarrow> string list \<Rightarrow> 'f translationResult option list result" where
  "do_the_translation_thing L t values =
     (case values of
        [] \<Rightarrow> Panic IndexOutOfRange
      | value0 # _ \<Rightarrow>
          (case template_execute L t ''missingkey=error''
                  [(''values'', TStrings values), (''value'', TString value0)] of
             Inl err \<Rightarrow> Error (TemplateExecuteFailed values err)
           | Inr buffer \<Rightarrow>
               (case yaml_unmarshal L buffer of
                  Inl err \<Rightarrow> Error (YamlUnmarshalFailed values err buffer)
                | Inr results \<Rightarrow>
                    (case check_results values 0 results of
                       Panic p \<Rightarrow> Panic p
                     | Error e \<Rightarrow> Error e
                     | Return _ \<Rightarrow> Return results))))"

text \<open>The inner loop of \<open>buildOrderedLabels\<close>: the first source that has the name.\<close>

fun find_label :: "string \<Rightarrow> (string, string) fmap list \<Rightarrow> string option" where
  "find_label label_name [] = None"
| "find_label label_name (source # sources) =
     (case fmlookup source label_name of
        Some v \<Rightarrow> Some v
      | None \<Rightarrow> find_label label_name sources)"

text \<open>\<open>buildOrderedLabels\<close>; the second argument is all of \<open>label_sources\<close>, kept for the
  error.\<close>

fun build_from ::
  "(string, string) fmap list \<Rightarrow> string list \<Rightarrow> error + string list" where
  "build_from label_sources [] = Inr []"
| "build_from label_sources (label_name # rest) =
     (case find_label label_name label_sources of
        None \<Rightarrow> Inl (LabelNotFound label_name label_sources)
      | Some v \<Rightarrow>
          (case build_from label_sources rest of
             Inl e \<Rightarrow> Inl e
           | Inr vs \<Rightarrow> Inr (v # vs)))"

definition buildOrderedLabels ::
  "string list \<Rightarrow> (string, string) fmap list \<Rightarrow> error + string list" where
  "buildOrderedLabels desc_labels label_sources = build_from label_sources desc_labels"

text \<open>The loop both \<open>Parse\<close> methods run over the translation results; they differ in
  the value type only.\<close>

fun translated_metrics ::
  "('t, 'f) lib \<Rightarrow> desc \<Rightarrow> ValueType \<Rightarrow> string list \<Rightarrow> (string, string) fmap \<Rightarrow>
   'f translationResult option list \<Rightarrow> 'f constMetric list result" where
  "translated_metrics L d vt lbls extra_labels [] = Return []"
| "translated_metrics L d vt lbls extra_labels (None # rest) = Panic NilDereference"
| "translated_metrics L d vt lbls extra_labels (Some v # rest) =
     (case buildOrderedLabels lbls [Labels v, extra_labels] of
        Inl e \<Rightarrow> Error e
      | Inr lvs \<Rightarrow>
          (case NewConstMetric L d vt (Value v) lvs of
             Inl e \<Rightarrow> Error (NewConstMetricFailed e)
           | Inr metric \<Rightarrow>
               (case translated_metrics L d vt lbls extra_labels rest of
                  Panic p \<Rightarrow> Panic p
                | Error e \<Rightarrow> Error e
                | Return metrics \<Rightarrow> Return (metric # metrics))))"

definition CounterParse ::
  "('t, 'f) lib \<Rightarrow> desc \<Rightarrow> string list \<Rightarrow> 't option \<Rightarrow> (string, string) fmap \<Rightarrow>
   EntryAttribute \<Rightarrow> 'f constMetric list result" where
  "CounterParse L d lbls tr extra_labels entry =
     (case tr of
        None \<Rightarrow>
          (case Values entry of
             [v] \<Rightarrow>
               (case ParseUint v of
                  Inl e \<Rightarrow> Error (ParseUintFailed v e)
                | Inr x \<Rightarrow>
                    (case buildOrderedLabels lbls [extra_labels] of
                       Inl e \<Rightarrow> Error e
                     | Inr lvs \<Rightarrow>
                         (case NewConstMetric L d CounterValue (float64_of_uint64 L x) lvs of
                            Inl e \<Rightarrow> Error (NewConstMetricFailed e)
                          | Inr metric \<Rightarrow> Return [metric])))
           | vs \<Rightarrow> Error (NoTranslatorValueCount (Name entry) (length vs)))
      | Some t \<Rightarrow>
          (case do_the_translation_thing L t (Values entry) of
             Panic p \<Rightarrow> Panic p
           | Error e \<Rightarrow> Error e
           | Return values \<Rightarrow> translated_metrics L d CounterValue lbls extra_labels values))"

definition GaugeParse ::
  "('t, 'f) lib \<Rightarrow> desc \<Rightarrow> string list \<Rightarrow> 't option \<Rightarrow> (string, string) fmap \<Rightarrow>
   EntryAttribute \<Rightarrow> 'f constMetric list result" where
  "GaugeParse L d lbls tr extra_labels entry =
     (case tr of
        None \<Rightarrow>
          (case Values entry of
             [v] \<Rightarrow>
               (case parse_float L v of
                  Inl e \<Rightarrow> Error (ParseFloatFailed e)
                | Inr x \<Rightarrow>
                    (case buildOrderedLabels lbls [extra_labels] of
                       Inl e \<Rightarrow> Error e
                     | Inr lvs \<Rightarrow>
                         (case NewConstMetric L d CounterValue x lvs of
                            Inl e \<Rightarrow> Error (FailedCreatingMetric d e)
                          | Inr metric \<Rightarrow> Return [metric])))
           | vs \<Rightarrow> Error (NoTranslatorValueCount (Name entry) (length vs)))
      | Some t \<Rightarrow>
          (case do_the_translation_thing L t (Values entry) of
             Panic p \<Rightarrow> Panic p
           | Error e \<Rightarrow> Error e
           | Return values \<Rightarrow> translated_metrics L d GaugeValue lbls extra_labels values))"

text \<open>\<open>Parse\<close> through the interface: dynamic dispatch on the implementation.\<close>

fun Parse ::
  "('t, 'f) lib \<Rightarrow> 't MetricAttribute \<Rightarrow> (string, string) fmap \<Rightarrow> EntryAttribute \<Rightarrow>
   'f constMetric list result" where
  "Parse L (CounterMetricAttribute d lbls tr) extra_labels entry =
     CounterParse L d lbls tr extra_labels entry"
| "Parse L (GaugeMetricAttribute d lbls tr) extra_labels entry =
     GaugeParse L d lbls tr extra_labels entry"

section \<open>Metrics sources and the scrape\<close>

text \<open>
  What is sent on the channel of \<open>Collect\<close>: a sample, or one of the exporter's own four
  metric objects (the object is sent, its value is read from the exporter afterwards).
  A function that sends returns the list of what it sent, in order.
\<close>

datatype 'f Metric =
    ConstMetric "'f constMetric"
  | DurationGauge
  | TotalScrapesCounter
  | TotalErrorsCounter
  | ScrapeErrorGauge

text \<open>First loop of \<open>scrapeMetrics\<close> over one entry: collect the attributes that are
  labels.\<close>

fun collect_labels ::
  "(string, string) fmap \<Rightarrow> (string, string) fmap \<Rightarrow> EntryAttribute list \<Rightarrow>
   error + (string, string) fmap" where
  "collect_labels LA lbls [] = Inr lbls"
| "collect_labels LA lbls (attribute # rest) =
     (case fmlookup LA (Name attribute) of
        None \<Rightarrow> collect_labels LA lbls rest
      | Some remapped_label_name \<Rightarrow>
          (case Values attribute of
             [v] \<Rightarrow> collect_labels LA (fmupd remapped_label_name v lbls) rest
           | vs \<Rightarrow> Inl (LabelNotSingleValued (Name attribute) vs)))"

text \<open>Second loop of \<open>scrapeMetrics\<close> over one entry: parse the attributes that are
  metrics and send the samples.\<close>

fun scrape_attributes ::
  "('t, 'f) lib \<Rightarrow> 't MetricsSource \<Rightarrow> (string, string) fmap \<Rightarrow> EntryAttribute list \<Rightarrow>
   'f Metric list \<times> unit result" where
  "scrape_attributes L m lbls [] = ([], Return ())"
| "scrape_attributes L m lbls (attribute # rest) =
     (case fmlookup (MetricAttributes m) (Name attribute) of
        None \<Rightarrow>
          (case fmlookup (LabelAttributes m) (Name attribute) of
             None \<Rightarrow> ([], Error (UnrecognizedAttribute (Name attribute)))
           | Some _ \<Rightarrow> scrape_attributes L m lbls rest)
      | Some metricVec \<Rightarrow>
          (case Parse L metricVec lbls attribute of
             Panic p \<Rightarrow> ([], Panic p)
           | Error err \<Rightarrow>
               ([], Error (WhileScraping (BaseDN (SearchRequest m)) (Filter (SearchRequest m)) err))
           | Return metrics \<Rightarrow>
               (case scrape_attributes L m lbls rest of
                  (sent, r) \<Rightarrow> (map ConstMetric metrics @ sent, r))))"

text \<open>The body of the loop of \<open>scrapeMetrics\<close> over the entries.\<close>

definition scrape_entry ::
  "('t, 'f) lib \<Rightarrow> 't MetricsSource \<Rightarrow> Entry \<Rightarrow> 'f Metric list \<times> unit result" where
  "scrape_entry L m e =
     (case collect_labels (LabelAttributes m) fmempty (Attributes e) of
        Inl err \<Rightarrow> ([], Error err)
      | Inr lbls \<Rightarrow>
          if fcard (fmdom lbls) \<noteq> fcard (fmdom (LabelAttributes m))
          then ([], Error (RequiredLabelsMissing (LabelAttributes m) lbls))
          else scrape_attributes L m lbls (Attributes e))"

fun scrape_entries ::
  "('t, 'f) lib \<Rightarrow> 't MetricsSource \<Rightarrow> Entry list \<Rightarrow> 'f Metric list \<times> unit result" where
  "scrape_entries L m [] = ([], Return ())"
| "scrape_entries L m (e # rest) =
     (case scrape_entry L m e of
        (sent, Return _) \<Rightarrow>
          (case scrape_entries L m rest of (sent', r) \<Rightarrow> (sent @ sent', r))
      | (sent, r) \<Rightarrow> (sent, r))"

definition scrapeMetrics ::
  "('t, 'f) lib \<Rightarrow> 't MetricsSource \<Rightarrow> SearchResult \<Rightarrow> 'f Metric list \<times> unit result" where
  "scrapeMetrics L m res = scrape_entries L m (Entries res)"

text \<open>
  The exporter. The connection is a state \<open>'c\<close>; \<open>conn.Search\<close> is the parameter
  \<open>search\<close>, which answers a request with an error or a result and leaves a new
  connection state.
\<close>

record ('t, 'f, 'c) Exporter =
  duration :: 'f
  scrapeError :: 'f
  totalErrors :: 'f
  totalScrapes :: 'f
  conn :: 'c
  metricsSources :: "'t MetricsSource list"

type_synonym 'c search = "'c \<Rightarrow> SearchRequest \<Rightarrow> (string + SearchResult) \<times> 'c"

text \<open>The loop of \<open>scrape\<close> over the sources: the connection, the failures counted, what
  was sent, and the panic that ended the loop, if one did.\<close>

fun scrape_sources ::
  "('t, 'f) lib \<Rightarrow> 'c search \<Rightarrow> 'c \<Rightarrow> 'f \<Rightarrow> 't MetricsSource list \<Rightarrow>
   'c \<times> 'f \<times> 'f Metric list \<times> runtime_panic option" where
  "scrape_sources L S c failures [] = (c, failures, [], None)"
| "scrape_sources L S c failures (source # rest) =
     (case S c (SearchRequest source) of
        (Inl err, c') \<Rightarrow>
          scrape_sources L S c' (float_add L failures (float_one L)) rest
      | (Inr res, c') \<Rightarrow>
          (case scrapeMetrics L source res of
             (sent, Panic p) \<Rightarrow> (c', failures, sent, Some p)
           | (sent, Error err) \<Rightarrow>
               (case scrape_sources L S c' (float_add L failures (float_one L)) rest of
                  (c'', failures', sent', p) \<Rightarrow> (c'', failures', sent @ sent', p))
           | (sent, Return _) \<Rightarrow>
               (case scrape_sources L S c' failures rest of
                  (c'', failures', sent', p) \<Rightarrow> (c'', failures', sent @ sent', p))))"

text \<open>\<open>scrape\<close>; \<open>elapsed\<close> is \<open>time.Since(begin).Seconds()\<close>. The deferred function runs
  on a panic too.\<close>

definition scrape ::
  "('t, 'f) lib \<Rightarrow> 'c search \<Rightarrow> 'f \<Rightarrow> ('t, 'f, 'c) Exporter \<Rightarrow>
   ('t, 'f, 'c) Exporter \<times> 'f Metric list \<times> runtime_panic option" where
  "scrape L S elapsed e =
     (let e1 = e\<lparr>totalScrapes := float_add L (totalScrapes e) (float_one L)\<rparr> in
      case scrape_sources L S (conn e1) (float_zero L) (metricsSources e1) of
        (c', failures, sent, p) \<Rightarrow>
          (e1\<lparr>conn := c',
              duration := elapsed,
              scrapeError := failures,
              totalErrors := float_add L (totalErrors e1) failures\<rparr>,
           sent, p))"

definition Collect ::
  "('t, 'f) lib \<Rightarrow> 'c search \<Rightarrow> 'f \<Rightarrow> ('t, 'f, 'c) Exporter \<Rightarrow>
   ('t, 'f, 'c) Exporter \<times> 'f Metric list \<times> unit result" where
  "Collect L S elapsed e =
     (case scrape L S elapsed e of
        (e', sent, Some p) \<Rightarrow> (e', sent, Panic p)
      | (e', sent, None) \<Rightarrow>
          (e', sent @ [DurationGauge, TotalScrapesCounter, TotalErrorsCounter, ScrapeErrorGauge],
           Return ()))"

section \<open>A stand-in library for closed instances\<close>

text \<open>
  The closed instances below need the library parameters at concrete values. This
  stand-in takes \<open>float64\<close> as \<^typ>\<open>real\<close> and a template as its source text; it
  knows the two default name templates, one template that reads an undefined field, and
  renders any other text as itself; its YAML decoder knows three documents.
\<close>

definition demo_execute :: "string \<Rightarrow> string \<Rightarrow> (string \<times> tvalue) list \<Rightarrow> string + string" where
  "demo_execute t opt data =
     (if t = ''{{ .section }}_{{ .attribute }}_total'' then
        (case (map_of data ''section'', map_of data ''attribute'') of
           (Some (TString s), Some (TString a)) \<Rightarrow> Inr (s @ ''_'' @ a @ ''_total'')
         | _ \<Rightarrow> Inl ''map has no entry for key'')
      else if t = ''{{ .section }}_{{ .attribute }}'' then
        (case (map_of data ''section'', map_of data ''attribute'') of
           (Some (TString s), Some (TString a)) \<Rightarrow> Inr (s @ ''_'' @ a)
         | _ \<Rightarrow> Inl ''map has no entry for key'')
      else if t = ''{{ .nosuch }}'' then
        (case map_of data ''nosuch'' of
           Some (TString s) \<Rightarrow> Inr s
         | _ \<Rightarrow> if opt = ''missingkey=error'' then Inl ''map has no entry for key'' else Inr ''<no value>'')
      else Inr t)"

definition demo_unmarshal :: "string \<Rightarrow> string + real translationResult option list" where
  "demo_unmarshal text =
     (if text = ''[{value: 2, labels: {status: ok}}, {value: 5, labels: {status: fail}}]'' then
        Inr [Some \<lparr>Value = 2, Labels = fmupd ''status'' ''ok'' fmempty, X = fmempty\<rparr>,
             Some \<lparr>Value = 5, Labels = fmupd ''status'' ''fail'' fmempty, X = fmempty\<rparr>]
      else if text = ''[{value: 1, extra: 3}]'' then
        Inr [Some \<lparr>Value = 1, Labels = fmempty, X = fmupd ''extra'' (AnyInt 3) fmempty\<rparr>]
      else if text = ''[]'' then Inr []
      else Inl ''cannot unmarshal'')"

definition demo_lib :: "(string, real) lib" where
  "demo_lib =
     \<lparr>template_parse = (\<lambda>s. Inr s),
      template_execute = demo_execute,
      yaml_unmarshal = demo_unmarshal,
      parse_float = (\<lambda>s. if s = ''3.5'' then Inr 3.5 else Inl ''invalid syntax''),
      float64_of_uint64 = (\<lambda>x. real (unat x)),
      const_metric_error = (\<lambda>d vt v lvs.
         if length (variableLabels d) \<noteq> length lvs then Some ''inconsistent label cardinality'' else None),
      float_zero = 0,
      float_one = 1,
      float_add = (+),
      parse_dn_error = (\<lambda>s. None),
      compile_filter_error = (\<lambda>s. None),
      defaultCounterNameTemplate = ''{{ .section }}_{{ .attribute }}_total'',
      defaultmetricNameTemplate = ''{{ .section }}_{{ .attribute }}''\<rparr>"

definition demo_desc :: desc where
  "demo_desc = NewDesc ''ldap_logins'' ''No help provided'' [] fmempty"

section \<open>Parsing without a translator\<close>

lemmas ParseUint_simps = ParseUint_def is_digit_def digit_val_def maxUint64_def

text \<open>
  Claim C1. A metric attribute without a translator returns samples exactly when the
  scraped attribute carries one raw value that parses (as an unsigned 64-bit integer for a
  counter, as a floating-point number for a gauge), its labels resolve from the
  caller-supplied labels and the sample can be built; it then returns exactly one sample,
  whose value is the parsed number (\<open>float64(x)\<close> for a counter). Any other value count
  is an error, and so is a value that does not parse; an error returns no samples. The
  counter value \<open>"7"\<close> parses to 7 and \<open>"abc"\<close> does not parse.
\<close>

theorem no_translator_parse:
  "(Parse L (CounterMetricAttribute d lbls None) extra entry = Return ms \<longleftrightarrow>
      (\<exists>v x lvs. Values entry = [v] \<and> ParseUint v = Inr x \<and>
         buildOrderedLabels lbls [extra] = Inr lvs \<and>
         const_metric_error L d CounterValue (float64_of_uint64 L x) lvs = None \<and>
         ms = [\<lparr>metricDesc = d, valType = CounterValue, val = float64_of_uint64 L x,
                labelValues = lvs\<rparr>]))
   \<and> (Parse L (GaugeMetricAttribute d lbls None) extra entry = Return ms \<longleftrightarrow>
      (\<exists>v x lvs. Values entry = [v] \<and> parse_float L v = Inr x \<and>
         buildOrderedLabels lbls [extra] = Inr lvs \<and>
         const_metric_error L d CounterValue x lvs = None \<and>
         ms = [\<lparr>metricDesc = d, valType = CounterValue, val = x, labelValues = lvs\<rparr>]))
   \<and> (length (Values entry) \<noteq> 1 \<longrightarrow>
        Parse L (CounterMetricAttribute d lbls None) extra entry =
          Error (NoTranslatorValueCount (Name entry) (length (Values entry))) \<and>
        Parse L (GaugeMetricAttribute d lbls None) extra entry =
          Error (NoTranslatorValueCount (Name entry) (length (Values entry))))
   \<and> (\<forall>v e. Values entry = [v] \<and> ParseUint v = Inl e \<longrightarrow>
        Parse L (CounterMetricAttribute d lbls None) extra entry = Error (ParseUintFailed v e))
   \<and> (\<forall>v e. Values entry = [v] \<and> parse_float L v = Inl e \<longrightarrow>
        Parse L (GaugeMetricAttribute d lbls None) extra entry = Error (ParseFloatFailed e))
   \<and> ParseUint ''7'' = Inr 7 \<and> ParseUint ''abc'' = Inl ErrSyntax"
proof -
  have c: "Parse L (CounterMetricAttribute d lbls None) extra entry = Return ms \<longleftrightarrow>
      (\<exists>v x lvs. Values entry = [v] \<and> ParseUint v = Inr x \<and>
         buildOrderedLabels lbls [extra] = Inr lvs \<and>
         const_metric_error L d CounterValue (float64_of_uint64 L x) lvs = None \<and>
         ms = [\<lparr>metricDesc = d, valType = CounterValue, val = float64_of_uint64 L x,
                labelValues = lvs\<rparr>])"
    by (auto simp: CounterParse_def NewConstMetric_def
        split: list.splits sum.splits option.splits)
  have g: "Parse L (GaugeMetricAttribute d lbls None) extra entry = Return ms \<longleftrightarrow>
      (\<exists>v x lvs. Values entry = [v] \<and> parse_float L v = Inr x \<and>
         buildOrderedLabels lbls [extra] = Inr lvs \<and>
         const_metric_error L d CounterValue x lvs = None \<and>
         ms = [\<lparr>metricDesc = d, valType = CounterValue, val = x, labelValues = lvs\<rparr>])"
    by (auto simp: GaugeParse_def NewConstMetric_def
        split: list.splits sum.splits option.splits)
  have n: "length (Values entry) \<noteq> 1 \<longrightarrow>
        Parse L (CounterMetricAttribute d lbls None) extra entry =
          Error (NoTranslatorValueCount (Name entry) (length (Values entry))) \<and>
        Parse L (GaugeMetricAttribute d lbls None) extra entry =
          Error (NoTranslatorValueCount (Name entry) (length (Values entry)))"
    by (auto simp: CounterParse_def GaugeParse_def split: list.splits)
  have pu: "\<forall>v e. Values entry = [v] \<and> ParseUint v = Inl e \<longrightarrow>
        Parse L (CounterMetricAttribute d lbls None) extra entry = Error (ParseUintFailed v e)"
    by (simp add: CounterParse_def)
  have pf: "\<forall>v e. Values entry = [v] \<and> parse_float L v = Inl e \<longrightarrow>
        Parse L (GaugeMetricAttribute d lbls None) extra entry = Error (ParseFloatFailed e)"
    by (simp add: GaugeParse_def)
  have ex: "ParseUint ''7'' = Inr 7 \<and> ParseUint ''abc'' = Inl ErrSyntax"
    by (simp add: ParseUint_simps)
  from c g n pu pf ex show ?thesis by blast
qed

theorem no_translator_parse_witness:
  "Parse demo_lib (CounterMetricAttribute demo_desc [] None) fmempty
      \<lparr>Name = ''loginCount'', Values = [''7'']\<rparr> =
     Return [\<lparr>metricDesc = demo_desc, valType = CounterValue, val = 7, labelValues = []\<rparr>]
   \<and> Parse demo_lib (GaugeMetricAttribute demo_desc [] None) fmempty
      \<lparr>Name = ''load'', Values = [''3.5'']\<rparr> =
     Return [\<lparr>metricDesc = demo_desc, valType = CounterValue, val = 3.5, labelValues = []\<rparr>]
   \<and> Parse demo_lib (CounterMetricAttribute demo_desc [] None) fmempty
      \<lparr>Name = ''loginCount'', Values = [''abc'']\<rparr> = Error (ParseUintFailed ''abc'' ErrSyntax)
   \<and> Parse demo_lib (CounterMetricAttribute demo_desc [] None) fmempty
      \<lparr>Name = ''loginCount'', Values = [''7'', ''8'']\<rparr> =
        Error (NoTranslatorValueCount ''loginCount'' 2)
   \<and> Parse demo_lib (GaugeMetricAttribute demo_desc [] None) fmempty
      \<lparr>Name = ''load'', Values = []\<rparr> = Error (NoTranslatorValueCount ''load'' 0)"
proof -
  let ?c = "CounterMetricAttribute demo_desc [] None"
  let ?g = "GaugeMetricAttribute demo_desc [] None"
  note T = no_translator_parse [where L = demo_lib and d = demo_desc and lbls = "[]" and extra = fmempty]
  have 1: "Parse demo_lib ?c fmempty \<lparr>Name = ''loginCount'', Values = [''7'']\<rparr> =
     Return [\<lparr>metricDesc = demo_desc, valType = CounterValue, val = 7, labelValues = []\<rparr>]"
  proof (rule T [THEN conjunct1, THEN iffD2])
    show "\<exists>v x lvs. Values \<lparr>Name = ''loginCount'', Values = [''7'']\<rparr> = [v] \<and> ParseUint v = Inr x \<and>
         buildOrderedLabels [] [fmempty] = Inr lvs \<and>
         const_metric_error demo_lib demo_desc CounterValue (float64_of_uint64 demo_lib x) lvs = None \<and>
         [\<lparr>metricDesc = demo_desc, valType = CounterValue, val = 7, labelValues = []\<rparr>] =
         [\<lparr>metricDesc = demo_desc, valType = CounterValue, val = float64_of_uint64 demo_lib x,
                labelValues = lvs\<rparr>]"
      by (intro exI [of _ "''7''"] exI [of _ "7 :: 64 word"] exI [of _ "[] :: string list"])
        (simp add: demo_lib_def demo_desc_def NewDesc_def buildOrderedLabels_def ParseUint_simps)
  qed
  have 2: "Parse demo_lib ?g fmempty \<lparr>Name = ''load'', Values = [''3.5'']\<rparr> =
     Return [\<lparr>metricDesc = demo_desc, valType = CounterValue, val = 3.5, labelValues = []\<rparr>]"
  proof (rule T [THEN conjunct2, THEN conjunct1, THEN iffD2])
    show "\<exists>v x lvs. Values \<lparr>Name = ''load'', Values = [''3.5'']\<rparr> = [v] \<and> parse_float demo_lib v = Inr x \<and>
         buildOrderedLabels [] [fmempty] = Inr lvs \<and>
         const_metric_error demo_lib demo_desc CounterValue x lvs = None \<and>
         [\<lparr>metricDesc = demo_desc, valType = CounterValue, val = 3.5, labelValues = []\<rparr>] =
         [\<lparr>metricDesc = demo_desc, valType = CounterValue, val = x, labelValues = lvs\<rparr>]"
      by (intro exI [of _ "''3.5''"] exI [of _ "3.5 :: real"] exI [of _ "[] :: string list"])
        (simp add: demo_lib_def demo_desc_def NewDesc_def buildOrderedLabels_def)
  qed
  have 3: "Parse demo_lib ?c fmempty \<lparr>Name = ''loginCount'', Values = [''abc'']\<rparr> =
      Error (ParseUintFailed ''abc'' ErrSyntax)"
    using T [where entry = "\<lparr>Name = ''loginCount'', Values = [''abc'']\<rparr>"]
    by simp
  have 4: "Parse demo_lib ?c fmempty \<lparr>Name = ''loginCount'', Values = [''7'', ''8'']\<rparr> =
        Error (NoTranslatorValueCount ''loginCount'' 2)"
    using T [where entry = "\<lparr>Name = ''loginCount'', Values = [''7'', ''8'']\<rparr>"]
    by simp
  have 5: "Parse demo_lib ?g fmempty \<lparr>Name = ''load'', Values = []\<rparr> =
        Error (NoTranslatorValueCount ''load'' 0)"
    using T [where entry = "\<lparr>Name = ''load'', Values = []\<rparr>"]
    by simp
  from 1 2 3 4 5 show ?thesis by blast
qed

end
